theory Spec2Isabelle
  imports Main "HOL-Library.Sublist"
begin

section \<open>Text helpers shared by the Go code and the injected scripts\<close>

text \<open>
  Go strings and the text read from the page are modelled as \<open>string\<close>.
  \<open>Contains s sub\<close> is Go's \<open>strings.Contains(s, sub)\<close> and the script's
  \<open>s.includes(sub)\<close>: \<open>sub\<close> occurs in \<open>s\<close> as a contiguous run.
\<close>

fun Contains :: "string \<Rightarrow> string \<Rightarrow> bool" where
  "Contains [] sub = (sub = [])"
| "Contains (c # s) sub = (prefix sub (c # s) \<or> Contains s sub)"

text \<open>
  \<open>trim\<close> is the script's \<open>String.prototype.trim\<close>: white space and line
  terminators are removed at both ends. Of the engine's white-space set the characters
  below 256 are listed (tab, line feed, vertical tab, form feed, carriage return, space,
  no-break space).
\<close>

definition js_whitespace :: "char \<Rightarrow> bool" where
  "js_whitespace c =
     (c \<in> set [CHR 0x09, CHR 0x0A, CHR 0x0B, CHR 0x0C, CHR 0x0D, CHR 0x20, CHR 0xA0])"

definition trim :: "string \<Rightarrow> string" where
  "trim s = rev (dropWhile js_whitespace (rev (dropWhile js_whitespace s)))"

text \<open>
  \<open>el?.textContent?.trim() || ''\<close>: the text of an element that \<open>querySelector\<close>
  may not have found (\<open>None\<close>); a missing element and an all-blank text both give the
  empty string.
\<close>

definition text_or_empty :: "string option \<Rightarrow> string" where
  "text_or_empty el = (case el of None \<Rightarrow> [] | Some t \<Rightarrow> trim t)"

section \<open>The data model of package scraper\<close>

text \<open>
  The structs of \<open>pkg/scraper/scraper.go\<close>. Record fields are constants of the theory, so
  the \<open>Duration\<close> of \<open>Education\<close> is \<open>EduDuration\<close>. \<open>Post\<close> is the struct of
  \<open>scraper.go\<close> (content only); \<open>TitledPost\<close> is the struct of the revision of the file
  whose posts carry a title as well.
\<close>

record Experience =
  Company :: string
  Duration :: string
  Title :: string

record Post =
  Content :: string

record TitledPost =
  PostTitle :: string
  PostContent :: string

record Education =
  Institute :: string
  Major :: string
  EduDuration :: string

record 'post Profile =
  Name :: string
  Location :: string
  About :: string
  Experience :: "Experience list"
  Education :: "Education list"
  Posts :: "'post list"

definition empty_Profile :: "'post Profile" where
  "empty_Profile =
     \<lparr>Name = [], Location = [], About = [], Experience = [], Education = [], Posts = []\<rparr>"

text \<open>
  \<open>NewScraper\<close> may replace the browser context of the scraper twice; \<open>session\<close> records
  which context the scraper holds.
\<close>

datatype session = FirstContext | VisibleContext | ReplacementContext

record 'post Scraper =
  session :: session
  linkedInURL :: string
  email :: string
  password :: string
  Profile :: "'post Profile"

section \<open>The page as the scripts see it\<close>

text \<open>
  A feed item is one element matched by \<open>.feed-shared-update-v2\<close>. Of it the script reads
  the text of the header element (\<open>header_text\<close>, \<open>None\<close> when the item has no header) and,
  inside the description wrapper (\<open>None\<close> when missing), the text of the show-more
  element and of the left-to-right span.
\<close>

record wrapper_el =
  show_more_text :: "string option"
  ltr_text :: "string option"

record feed_item =
  header_text :: "string option"
  description_wrapper :: "wrapper_el option"

text \<open>
  A list item of the experience or education page is \<open>None\<close> when it has no
  \<open>profile-component-entity\<close> block; otherwise the texts the script queries inside it.
\<close>

record experience_entity =
  title_aria_text :: "string option"
  title_hidden_text :: "string option"
  company_text :: "string option"
  duration_text :: "string option"

record education_entity =
  institute_text :: "string option"
  major_text :: "string option"
  edu_duration_text :: "string option"

section \<open>The script of GetRecentPosts\<close>

definition is_repost :: "feed_item \<Rightarrow> bool" where
  "is_repost post =
     (case header_text post of None \<Rightarrow> False | Some h \<Rightarrow> Contains h ''reposted this'')"

text \<open>The callback passed to \<open>map\<close> in \<open>scraper.go\<close>; \<open>None\<close> is the script's \<open>null\<close>.\<close>

definition post_of_item :: "feed_item \<Rightarrow> Post option" where
  "post_of_item post =
     (if is_repost post then None
      else (case description_wrapper post of
              None \<Rightarrow> None
            | Some wrapper \<Rightarrow>
                (let content =
                   (if text_or_empty (show_more_text wrapper) \<noteq> []
                    then text_or_empty (show_more_text wrapper)
                    else text_or_empty (ltr_text wrapper))
                 in if content = [] then None else Some \<lparr>Content = content\<rparr>)))"

text \<open>
  \<open>Array.from(items).map(callback).filter(item => item !== null).slice(0, 5)\<close>, then
  decoded into \<open>[]Post\<close>.
\<close>

definition posts_script :: "feed_item list \<Rightarrow> Post list" where
  "posts_script items =
     map the (take 5 (filter (\<lambda>item. item \<noteq> None) (map post_of_item items)))"

text \<open>The same script in the revision whose posts have a title and a content.\<close>

definition titled_post_of_item :: "feed_item \<Rightarrow> TitledPost option" where
  "titled_post_of_item post =
     (if is_repost post then None
      else (case description_wrapper post of
              None \<Rightarrow> None
            | Some wrapper \<Rightarrow>
                (let title = text_or_empty (ltr_text wrapper);
                     content = text_or_empty (show_more_text wrapper)
                 in if title = [] \<and> content = [] then None
                    else Some \<lparr>PostTitle = title, PostContent = content\<rparr>)))"

definition titled_posts_script :: "feed_item list \<Rightarrow> TitledPost list" where
  "titled_posts_script items =
     map the (take 5 (filter (\<lambda>item. item \<noteq> None) (map titled_post_of_item items)))"

text \<open>
  An item qualifies when it is no repost, has a description wrapper and yields a text:
  the content in \<open>scraper.go\<close>, a title or a content in the titled revision.
\<close>

definition qualifies :: "feed_item \<Rightarrow> bool" where
  "qualifies post = (\<not> is_repost post \<and>
     (case description_wrapper post of
        None \<Rightarrow> False
      | Some wrapper \<Rightarrow>
          \<not> (text_or_empty (show_more_text wrapper) = [] \<and> text_or_empty (ltr_text wrapper) = [])))"

section \<open>The scripts of GetExperiences and GetEducation\<close>

definition experience_of_item :: "experience_entity option \<Rightarrow> Experience option" where
  "experience_of_item el =
     (case el of
        None \<Rightarrow> None
      | Some position \<Rightarrow>
          Some \<lparr>Company = text_or_empty (company_text position),
                Duration = text_or_empty (duration_text position),
                Title = (if text_or_empty (title_aria_text position) \<noteq> []
                         then text_or_empty (title_aria_text position)
                         else text_or_empty (title_hidden_text position))\<rparr>)"

definition experiences_script :: "experience_entity option list \<Rightarrow> Experience list" where
  "experiences_script items =
     map the (filter (\<lambda>item. item \<noteq> None) (map experience_of_item items))"

definition education_of_item :: "education_entity option \<Rightarrow> Education option" where
  "education_of_item el =
     (case el of
        None \<Rightarrow> None
      | Some position \<Rightarrow>
          Some \<lparr>Institute = text_or_empty (institute_text position),
                Major = text_or_empty (major_text position),
                EduDuration = text_or_empty (edu_duration_text position)\<rparr>)"

definition education_script :: "education_entity option list \<Rightarrow> Education list" where
  "education_script items =
     map the (filter (\<lambda>item. item \<noteq> None) (map education_of_item items))"

section \<open>The extraction steps of the scraper\<close>

text \<open>
  The browser is outside the program. Each \<open>chromedp.Run\<close> of a step is given its outcome:
  \<open>Inl\<close> the message of the error it returned, or \<open>Inr\<close> what the page showed. A step
  takes the scraper and returns it with the error it reports (\<open>None\<close> is Go's \<open>nil\<close>);
  an error is its message, and \<open>fmt.Errorf\<close> prepends its text.
\<close>

definition GetRecentPosts ::
  "string + feed_item list \<Rightarrow> Post Scraper \<Rightarrow> Post Scraper \<times> string option" where
  "GetRecentPosts run s =
     (case run of
        Inl err \<Rightarrow> (s, Some (''failed to extract posts: '' @ err))
      | Inr items \<Rightarrow> (s\<lparr>Profile := (Profile s)\<lparr>Posts := posts_script items\<rparr>\<rparr>, None))"

definition GetRecentPosts_titled ::
  "string + feed_item list \<Rightarrow> TitledPost Scraper \<Rightarrow> TitledPost Scraper \<times> string option" where
  "GetRecentPosts_titled run s =
     (case run of
        Inl err \<Rightarrow> (s, Some (''failed to extract posts: '' @ err))
      | Inr items \<Rightarrow> (s\<lparr>Profile := (Profile s)\<lparr>Posts := titled_posts_script items\<rparr>\<rparr>, None))"

text \<open>
  \<open>GetRecentPosts\<close> of the earliest revision of the file. Its run is a single
  \<open>Evaluate\<close>, given here with its outcome: the exception, or the posts decoded from the
  value of the script. The script of this revision is
  \<open>try { return Array.from(...).slice(0, 5).map(...).filter(...); } catch (err) { ...; return []; }\<close>,
  with both \<open>return\<close> statements outside any function body. The engine rejects such a text
  when it compiles it, before anything runs, so for this revision the outcome is the
  exception whatever the page holds, and the two branches under \<open>Inr\<close> are never taken.
\<close>

definition GetRecentPosts_early ::
  "string + TitledPost list \<Rightarrow> TitledPost Scraper \<Rightarrow> TitledPost Scraper \<times> string option" where
  "GetRecentPosts_early evaluation s =
     (case evaluation of
        Inl err \<Rightarrow> (s, Some (''failed to extract posts: '' @ err))
      | Inr posts \<Rightarrow>
          if length posts = 0 then (s, Some ''required data not found'')
          else (s\<lparr>Profile := (Profile s)\<lparr>Posts := posts\<rparr>\<rparr>, None))"

definition GetExperiences ::
  "string option \<Rightarrow> string + experience_entity option list \<Rightarrow> 'post Scraper
     \<Rightarrow> 'post Scraper \<times> string option" where
  "GetExperiences navigation evaluation s =
     (case navigation of
        Some err \<Rightarrow> (s, Some (''navigation failed: '' @ err))
      | None \<Rightarrow>
          (case evaluation of
             Inl err \<Rightarrow> (s, Some (''failed to extract experiences: '' @ err))
           | Inr items \<Rightarrow>
               (s\<lparr>Profile := (Profile s)\<lparr>Experience := experiences_script items\<rparr>\<rparr>, None)))"

text \<open>
  \<open>GetExperiences\<close> of the earlier revision of the file: the same navigation and the same
  script, whose result is bound to the local \<open>experienceElements\<close>; the function then
  returns \<open>nil\<close> without an assignment to \<open>s.Profile.Experience\<close>.
\<close>

definition GetExperiences_early ::
  "string option \<Rightarrow> string + experience_entity option list \<Rightarrow> 'post Scraper
     \<Rightarrow> 'post Scraper \<times> string option" where
  "GetExperiences_early navigation evaluation s =
     (case navigation of
        Some err \<Rightarrow> (s, Some (''navigation failed: '' @ err))
      | None \<Rightarrow>
          (case evaluation of
             Inl err \<Rightarrow> (s, Some (''failed to extract experiences: '' @ err))
           | Inr items \<Rightarrow> (let experienceElements = experiences_script items in (s, None))))"

definition GetEducation ::
  "string option \<Rightarrow> string + education_entity option list \<Rightarrow> 'post Scraper
     \<Rightarrow> 'post Scraper \<times> string option" where
  "GetEducation navigation evaluation s =
     (case navigation of
        Some err \<Rightarrow> (s, Some (''navigation failed: '' @ err))
      | None \<Rightarrow>
          (case evaluation of
             Inl err \<Rightarrow> (s, Some (''failed to extract education: '' @ err))
           | Inr items \<Rightarrow>
               (s\<lparr>Profile := (Profile s)\<lparr>Education := education_script items\<rparr>\<rparr>, None)))"

text \<open>\<open>Inr (name, location)\<close> are the two texts \<open>chromedp.Text\<close> read.\<close>

definition GetNameAndLocation ::
  "string + string \<times> string \<Rightarrow> 'post Scraper \<Rightarrow> 'post Scraper \<times> string option" where
  "GetNameAndLocation run s =
     (case run of
        Inl err \<Rightarrow> (s, Some (''failed to get name and location: '' @ err))
      | Inr (name, location) \<Rightarrow>
          (s\<lparr>Profile := (Profile s)\<lparr>Name := name, Location := location\<rparr>\<rparr>, None))"

section \<open>Login and NewScraper\<close>

text \<open>
  What the browser answers during one run of \<open>login\<close>: the error of the first
  \<open>chromedp.Run\<close> (open the login page, type the credentials, click submit), the address
  \<open>chromedp.Location\<close> reads after the submission, and the address it reads again after
  the line read from standard input has returned.
\<close>

record login_env =
  submission :: "string option"
  address_after_submit :: "string + string"
  address_after_signal :: "string + string"

text \<open>
  The points a run of \<open>login\<close> passes through, in order: \<open>Idle\<close> on entry,
  \<open>Authenticating\<close> once the submission has returned without error,
  \<open>ChallengePresented\<close> when the address read after it contains
  \<open>checkpoint/challenge\<close>, \<open>AwaitingManualResolution\<close> at the blocking read of a line
  from standard input, \<open>Authenticated\<close> at \<open>return nil\<close> and \<open>Failed\<close> at the return
  of an error.
\<close>

datatype auth_state =
  Idle | Authenticating | ChallengePresented | AwaitingManualResolution | Authenticated
  | Failed string

definition login :: "bool \<Rightarrow> login_env \<Rightarrow> auth_state list \<times> string option" where
  "login headless b =
     (case submission b of
        Some err \<Rightarrow> ([Idle, Failed err], Some err)
      | None \<Rightarrow>
          (case address_after_submit b of
             Inl err \<Rightarrow> ([Idle, Authenticating, Failed err], Some err)
           | Inr currentURL \<Rightarrow>
               if Contains currentURL ''checkpoint/challenge'' then
                 (if headless then
                    ([Idle, Authenticating, ChallengePresented,
                      Failed ''verification required, please retry with headless=false''],
                     Some ''verification required, please retry with headless=false'')
                  else
                    (case address_after_signal b of
                       Inl err \<Rightarrow>
                         ([Idle, Authenticating, ChallengePresented, AwaitingManualResolution,
                           Failed err], Some err)
                     | Inr currentURL' \<Rightarrow>
                         if Contains currentURL' ''checkpoint/challenge'' then
                           ([Idle, Authenticating, ChallengePresented, AwaitingManualResolution,
                             Failed ''verification was not completed successfully''],
                            Some ''verification was not completed successfully'')
                         else
                           ([Idle, Authenticating, ChallengePresented, AwaitingManualResolution,
                             Authenticated], None)))
               else ([Idle, Authenticating, Authenticated], None)))"

text \<open>
  \<open>NewScraper\<close> returns \<open>(s, nil)\<close>, here \<open>Inr s\<close>, or \<open>(nil, err)\<close>, here \<open>Inl\<close> the
  message. It calls \<open>login(false)\<close> on the first context and, when the error message
  contains \<open>verification\<close>, once more on a new context; after a success there it moves the
  scraper to a further context. The states of both runs are returned with the result.
\<close>

definition NewScraper ::
  "login_env \<Rightarrow> login_env \<Rightarrow> string \<Rightarrow> string \<Rightarrow> string
     \<Rightarrow> auth_state list \<times> (string + 'post Scraper)" where
  "NewScraper first second em pw url =
     (let s = \<lparr>session = FirstContext, linkedInURL = url, email = em, password = pw,
               Profile = empty_Profile\<rparr>
      in case login False first of
           (states, None) \<Rightarrow> (states, Inr s)
         | (states, Some err) \<Rightarrow>
             if Contains err ''verification'' then
               (case login False second of
                  (states', Some err') \<Rightarrow>
                    (states @ states',
                     Inl (''failed to login even with verification: '' @ err'))
                | (states', None) \<Rightarrow>
                    (states @ states', Inr (s\<lparr>session := ReplacementContext\<rparr>)))
             else (states, Inl (''failed to login: '' @ err)))"

section \<open>GetUsedParams\<close>

text \<open>
  The map \<open>checks\<close> of \<open>GetUsedParams\<close>, each closure already applied to the profile.
  \<open>range\<close> over a Go map visits every key once in an order the language leaves open;
  \<open>order\<close> is the order of one run.
\<close>

definition checks :: "'post Profile \<Rightarrow> (string \<times> bool) list" where
  "checks profile =
     [(''Posts'', 0 < length (Posts profile)),
      (''Experience'', 0 < length (Experience profile)),
      (''Education'', 0 < length (Education profile)),
      (''Location'', Location profile \<noteq> []),
      (''Name'', Name profile \<noteq> [])]"

definition GetUsedParams :: "string list \<Rightarrow> 'post Profile \<Rightarrow> string list" where
  "GetUsedParams order profile =
     filter (\<lambda>param. map_of (checks profile) param = Some True) order"

definition iteration_order :: "string list \<Rightarrow> bool" where
  "iteration_order order =
     (distinct order \<and>
      set order = {''Posts'', ''Experience'', ''Education'', ''Location'', ''Name''})"

section \<open>The handler Home\<close>

record HomeReq =
  Email :: string
  Password :: string
  LinkedinUrl :: string

text \<open>
  \<open>RecentPosts\<close> is \<open>string(jsonPosts)\<close> in the source; the record keeps the posts that
  \<open>json.Marshal\<close> encodes (which cannot fail on a slice of structs of strings).
\<close>

record HomeRes =
  Msg :: string
  ParamsUsed :: "string list"
  RecentPosts :: "Post list"

text \<open>
  What \<open>utils.WriteResponse\<close> is given as \<open>msg\<close>: a plain text, the
  \<open>HomeRes{Msg: "Hello"}\<close> of the earlier handler, or the full \<open>HomeRes\<close>.
\<close>

datatype body = Message string | Hello | Result HomeRes

text \<open>
  What a run of the handler does, in order: the calls into package scraper (the call of
  \<open>NewScraper\<close> with the states its logins went through), the lines of \<open>log.Printf\<close>,
  the two prints of the handler, the calls of \<open>utils.WriteResponse\<close> with status and
  message, the start of \<open>go scraper.Close()\<close>, the call of \<open>openai.GetMessage\<close>, and the
  dereference of a nil \<open>*Scraper\<close>, on which the Go runtime panics.
\<close>

datatype event =
  CallNewScraper "auth_state list"
  | CallGetNameAndLocation
  | CallGetRecentPosts
  | CallGetExperiences
  | CallGetEducation
  | CallClose
  | CallGetMessage "Post Profile"
  | Log string
  | PrintLen nat
  | PrintProfile "Post Profile"
  | Write nat body
  | NilDereference

datatype outcome = Returned | Panicked

text \<open>
  Everything outside the program that one request meets: the result of decoding the body
  (\<open>utils.DecodeReqBody\<close>), whether \<open>mail.ParseAddress\<close> accepts an address
  (\<open>utils.ValidEmail\<close>), the browser's answers to the two logins and to each extraction
  step, the answer of \<open>openai.GetMessage\<close>, and the order in which \<open>range\<close> visits the
  keys of \<open>checks\<close>.
\<close>

record world =
  decoded :: "string + HomeReq"
  address_parses :: "string \<Rightarrow> bool"
  first_login :: login_env
  second_login :: login_env
  name_location_run :: "string + string \<times> string"
  posts_run :: "string + feed_item list"
  experience_navigation :: "string option"
  experience_evaluation :: "string + experience_entity option list"
  education_navigation :: "string option"
  education_evaluation :: "string + education_entity option list"
  message_reply :: "string + string"
  checks_order :: "string list"

definition ValidEmail :: "world \<Rightarrow> string \<Rightarrow> bool" where
  "ValidEmail w address = address_parses w address"

text \<open>\<open>if err != nil { log.Printf(what, err) }\<close>\<close>

definition logged :: "string \<Rightarrow> string option \<Rightarrow> event list" where
  "logged what err = (case err of None \<Rightarrow> [] | Some e \<Rightarrow> [Log (what @ e)])"

definition server_error :: body where
  "server_error = Message ''server encountered an error, please try again later''"

text \<open>The two steps inside the \<open>if\<close> of the handler (experiences, then education).\<close>

definition experience_and_education :: "world \<Rightarrow> Post Scraper \<Rightarrow> event list \<times> Post Scraper" where
  "experience_and_education w s =
     (case GetExperiences (experience_navigation w) (experience_evaluation w) s of
        (s1, err1) \<Rightarrow>
          (case GetEducation (education_navigation w) (education_evaluation w) s1 of
             (s2, err2) \<Rightarrow>
               ([CallGetExperiences] @ logged ''error while getting experiences: '' err1 @
                [CallGetEducation] @ logged ''error while getting education: '' err2 @
                (case err2 of None \<Rightarrow> [] | Some e \<Rightarrow> [Write 500 server_error]),
                s2)))"

text \<open>
  The handler of \<open>server/handler.go\<close> that answers with the message of the language
  model. A failed \<open>NewScraper\<close> is logged and the handler goes on with the nil scraper:
  \<open>GetNameAndLocation\<close> is entered and dereferences it.
\<close>

definition Home :: "world \<Rightarrow> event list \<times> outcome" where
  "Home w =
     (case decoded w of
        Inl err \<Rightarrow> ([Write 500 (Message ''Encountered an error. Please try again'')], Returned)
      | Inr d \<Rightarrow>
          if \<not> ValidEmail w (Email d) then ([Write 400 (Message ''invalid email'')], Returned)
          else
            (case NewScraper (first_login w) (second_login w) (Email d) (Password d)
                    (LinkedinUrl d) of
               (states, Inl err) \<Rightarrow>
                 ([CallNewScraper states, Log (''error while getting posts: '' @ err),
                   CallGetNameAndLocation, NilDereference], Panicked)
             | (states, Inr s) \<Rightarrow>
                 (case GetNameAndLocation (name_location_run w) s of
                    (s1, err1) \<Rightarrow>
                      (case GetRecentPosts (posts_run w) s1 of
                         (s2, err2) \<Rightarrow>
                           (case (if length (Posts (Profile s2)) \<le> 2
                                  then experience_and_education w s2 else ([], s2)) of
                              (gated, s3) \<Rightarrow>
                                ([CallNewScraper states, CallGetNameAndLocation] @
                                 logged ''error while getting name && location: '' err1 @
                                 [CallGetRecentPosts] @
                                 logged ''error while getting posts: '' err2 @
                                 [PrintLen (length (Posts (Profile s2)))] @ gated @
                                 [CallClose, PrintProfile (Profile s3),
                                  CallGetMessage (Profile s3)] @
                                 (case message_reply w of
                                    Inl err \<Rightarrow> [Write 500 server_error]
                                  | Inr msg \<Rightarrow>
                                      [Write 200 (Result
                                         \<lparr>Msg = msg,
                                          ParamsUsed = GetUsedParams (checks_order w) (Profile s3),
                                          RecentPosts = Posts (Profile s3)\<rparr>)]),
                                 Returned))))))"

text \<open>
  The earlier handler of the same file: posts first, then name and location, experiences
  and education inside the \<open>if\<close>, and the fixed answer \<open>Hello\<close>.
\<close>

definition Home_early :: "world \<Rightarrow> event list \<times> outcome" where
  "Home_early w =
     (case decoded w of
        Inl err \<Rightarrow> ([Write 500 (Message ''Encountered an error. Please try again'')], Returned)
      | Inr d \<Rightarrow>
          if \<not> ValidEmail w (Email d) then ([Write 400 (Message ''invalid email'')], Returned)
          else
            (case NewScraper (first_login w) (second_login w) (Email d) (Password d)
                    (LinkedinUrl d) of
               (states, Inl err) \<Rightarrow>
                 ([CallNewScraper states, Log (''error while getting posts: '' @ err),
                   CallGetRecentPosts, NilDereference], Panicked)
             | (states, Inr s) \<Rightarrow>
                 (case GetRecentPosts (posts_run w) s of
                    (s1, err1) \<Rightarrow>
                      (case (if length (Posts (Profile s1)) \<le> 2
                             then (case GetNameAndLocation (name_location_run w) s1 of
                                     (s2, err2) \<Rightarrow>
                                       (case experience_and_education w s2 of
                                          (gated, s3) \<Rightarrow>
                                            ([CallGetNameAndLocation] @
                                             logged ''error while getting name && location: '' err2 @
                                             gated, s3)))
                             else ([], s1)) of
                         (gated, s3) \<Rightarrow>
                           ([CallNewScraper states, CallGetRecentPosts] @
                            logged ''error while getting posts: '' err1 @
                            [PrintLen (length (Posts (Profile s1)))] @ gated @
                            [CallClose, PrintProfile (Profile s3), Write 200 Hello],
                            Returned)))))"

section \<open>Reading a run of the handler\<close>

text \<open>The extraction calls of a run, and those made after the posts step.\<close>

definition is_extraction_call :: "event \<Rightarrow> bool" where
  "is_extraction_call e =
     (e \<in> set [CallGetNameAndLocation, CallGetRecentPosts, CallGetExperiences, CallGetEducation])"

definition extraction_calls :: "event list \<Rightarrow> event list" where
  "extraction_calls evs = filter is_extraction_call evs"

definition after_posts :: "event list \<Rightarrow> event list" where
  "after_posts evs = drop 1 (dropWhile (\<lambda>e. e \<noteq> CallGetRecentPosts) evs)"

text \<open>
  The responses written, in order. \<open>WriteHeader\<close> takes effect once per request, so the
  status the client receives is that of the first write; with no write by the handler
  and a panic there is none.
\<close>

fun writes :: "event list \<Rightarrow> (nat \<times> body) list" where
  "writes [] = []"
| "writes (Write status msg # evs) = (status, msg) # writes evs"
| "writes (e # evs) = writes evs"

definition status_sent :: "event list \<Rightarrow> nat option" where
  "status_sent evs = (case writes evs of [] \<Rightarrow> None | (status, msg) # rest \<Rightarrow> Some status)"

text \<open>
  The number of posts the posts step extracts in a world: those of the script when the
  run succeeds, none when it fails (the profile of a new scraper has no posts).
\<close>

definition posts_found :: "world \<Rightarrow> nat" where
  "posts_found w = (case posts_run w of Inl err \<Rightarrow> 0 | Inr items \<Rightarrow> length (posts_script items))"

section \<open>Sample pages, logins and requests\<close>

definition original_item :: "string \<Rightarrow> feed_item" where
  "original_item t =
     \<lparr>header_text = None,
      description_wrapper = Some \<lparr>show_more_text = Some t, ltr_text = None\<rparr>\<rparr>"

definition reposted_item :: feed_item where
  "reposted_item =
     \<lparr>header_text = Some ''Ada reposted this'',
      description_wrapper = Some \<lparr>show_more_text = Some ''shared'', ltr_text = None\<rparr>\<rparr>"

definition blank_item :: feed_item where
  "blank_item =
     \<lparr>header_text = None,
      description_wrapper = Some \<lparr>show_more_text = Some ''  '', ltr_text = None\<rparr>\<rparr>"

text \<open>A repost, a blank item and six posts: five posts qualify before the sixth.\<close>

definition sample_feed :: "feed_item list" where
  "sample_feed =
     [reposted_item, blank_item, original_item ''p1'', original_item ''p2'', original_item ''p3'',
      original_item ''p4'', original_item '' p5 '', original_item ''p6'']"

definition new_scraper :: "'post Scraper" where
  "new_scraper =
     \<lparr>session = FirstContext, linkedInURL = ''https://www.linkedin.com/in/grace'',
      email = ''ada@example.org'', password = ''pw'', Profile = empty_Profile\<rparr>"

definition sample_entity :: experience_entity where
  "sample_entity =
     \<lparr>title_aria_text = Some ''Engineer'', title_hidden_text = None,
      company_text = Some ''Acme'', duration_text = Some ''2019 - Present''\<rparr>"

definition direct_login :: login_env where
  "direct_login =
     \<lparr>submission = None,
      address_after_submit = Inr ''https://www.linkedin.com/feed/'',
      address_after_signal = Inr ''https://www.linkedin.com/feed/''\<rparr>"

definition challenged_then_cleared :: login_env where
  "challenged_then_cleared =
     \<lparr>submission = None,
      address_after_submit = Inr ''https://www.linkedin.com/checkpoint/challenge/AgF'',
      address_after_signal = Inr ''https://www.linkedin.com/feed/''\<rparr>"

definition challenged_and_stuck :: login_env where
  "challenged_and_stuck =
     \<lparr>submission = None,
      address_after_submit = Inr ''https://www.linkedin.com/checkpoint/challenge/AgF'',
      address_after_signal = Inr ''https://www.linkedin.com/checkpoint/challenge/AgF''\<rparr>"

definition sample_request :: HomeReq where
  "sample_request =
     \<lparr>Email = ''ada@example.org'', Password = ''pw'',
      LinkedinUrl = ''https://www.linkedin.com/in/grace''\<rparr>"

text \<open>
  A request that logs in at once and finds two posts; the experience page does not load,
  the education page is empty.
\<close>

definition sample_world :: world where
  "sample_world =
     \<lparr>decoded = Inr sample_request,
      address_parses = (\<lambda>address. Contains address ''@''),
      first_login = direct_login,
      second_login = direct_login,
      name_location_run = Inr (''Grace'', ''London''),
      posts_run = Inr [original_item ''p1'', original_item ''p2''],
      experience_navigation = Some ''context deadline exceeded'',
      experience_evaluation = Inr [],
      education_navigation = None,
      education_evaluation = Inr [],
      message_reply = Inr ''Hi Grace'',
      checks_order = [''Name'', ''Posts'', ''Experience'', ''Education'', ''Location'']\<rparr>"

definition busy_world :: world where
  "busy_world = sample_world\<lparr>posts_run := Inr sample_feed\<rparr>"

definition education_down_world :: world where
  "education_down_world = sample_world\<lparr>education_navigation := Some ''timeout''\<rparr>"

definition locked_out_world :: world where
  "locked_out_world =
     sample_world\<lparr>first_login := challenged_and_stuck, second_login := challenged_and_stuck\<rparr>"

definition undecodable_world :: world where
  "undecodable_world = sample_world\<lparr>decoded := Inl ''unexpected end of JSON input''\<rparr>"

definition bad_address_world :: world where
  "bad_address_world = sample_world\<lparr>decoded := Inr (sample_request\<lparr>Email := ''ada''\<rparr>)\<rparr>"

definition sample_profile :: "Post Profile" where
  "sample_profile =
     \<lparr>Name = ''Grace'', Location = [], About = [],
      Experience = [\<lparr>Company = ''Acme'', Duration = ''2019 - Present'', Title = ''Engineer''\<rparr>],
      Education = [], Posts = []\<rparr>"

section \<open>Facts about the text helpers\<close>

lemma Contains_sublist: "Contains s sub = sublist sub s"
  by (induction s) (auto simp: sublist_Cons_right)

lemma trim_samples:
  "trim ''p1'' = ''p1''" "trim ''p2'' = ''p2''" "trim ''p3'' = ''p3''" "trim ''p4'' = ''p4''"
  "trim '' p5 '' = ''p5''" "trim ''p6'' = ''p6''" "trim ''  '' = []"
  by (simp_all add: trim_def js_whitespace_def)

lemma Contains_challenge_samples:
  "Contains ''https://www.linkedin.com/checkpoint/challenge/AgF'' ''checkpoint/challenge''"
  "\<not> Contains ''https://www.linkedin.com/feed/'' ''checkpoint/challenge''"
  by code_simp+

section \<open>The posts script\<close>

lemma qualifies_post: "qualifies post = (post_of_item post \<noteq> None)"
  by (auto simp: qualifies_def post_of_item_def Let_def split: option.splits)

lemma qualifies_titled: "qualifies post = (titled_post_of_item post \<noteq> None)"
  by (auto simp: qualifies_def titled_post_of_item_def Let_def split: option.splits)

lemma non_null_first:
  "map the (take n (filter (\<lambda>item. item \<noteq> None) (map f xs))) =
   map (the \<circ> f) (take n (filter (\<lambda>x. f x \<noteq> None) xs))"
  by (simp add: filter_map take_map comp_def)

lemma posts_script_qualifying:
  "posts_script items = map (the \<circ> post_of_item) (take 5 (filter qualifies items))"
  unfolding posts_script_def non_null_first by (simp add: qualifies_post[abs_def])

lemma titled_posts_script_qualifying:
  "titled_posts_script items =
     map (the \<circ> titled_post_of_item) (take 5 (filter qualifies items))"
  unfolding titled_posts_script_def non_null_first by (simp add: qualifies_titled[abs_def])

lemma post_content_nonempty: "post_of_item post = Some p \<Longrightarrow> Content p \<noteq> []"
  by (auto simp: post_of_item_def Let_def split: option.splits if_splits)

lemma titled_post_nonempty:
  "titled_post_of_item post = Some p \<Longrightarrow> \<not> (PostTitle p = [] \<and> PostContent p = [])"
  by (auto simp: titled_post_of_item_def Let_def split: option.splits if_splits)

lemma posts_script_entries: "p \<in> set (posts_script items) \<Longrightarrow> Content p \<noteq> []"
  unfolding posts_script_def
  using post_content_nonempty by (auto dest!: in_set_takeD)

lemma titled_posts_script_entries:
  "p \<in> set (titled_posts_script items) \<Longrightarrow> \<not> (PostTitle p = [] \<and> PostContent p = [])"
  unfolding titled_posts_script_def
  using titled_post_nonempty by (auto dest!: in_set_takeD)

lemma repost_not_post:
  "is_repost post \<Longrightarrow> post_of_item post = None \<and> titled_post_of_item post = None"
  by (simp add: post_of_item_def titled_post_of_item_def)

lemma is_repost_reposted_item: "is_repost reposted_item"
  by (simp add: is_repost_def reposted_item_def)

lemma not_repost_original: "\<not> is_repost (original_item t)"
  by (simp add: is_repost_def original_item_def)

lemma post_of_samples:
  "post_of_item reposted_item = None" "post_of_item blank_item = None"
  "post_of_item (original_item ''p1'') = Some \<lparr>Content = ''p1''\<rparr>"
  "post_of_item (original_item ''p2'') = Some \<lparr>Content = ''p2''\<rparr>"
  "post_of_item (original_item ''p3'') = Some \<lparr>Content = ''p3''\<rparr>"
  "post_of_item (original_item ''p4'') = Some \<lparr>Content = ''p4''\<rparr>"
  "post_of_item (original_item '' p5 '') = Some \<lparr>Content = ''p5''\<rparr>"
  "post_of_item (original_item ''p6'') = Some \<lparr>Content = ''p6''\<rparr>"
  by (simp_all add: post_of_item_def is_repost_reposted_item not_repost_original
       text_or_empty_def trim_samples)
    (simp_all add: original_item_def blank_item_def text_or_empty_def trim_samples)

lemma posts_script_sample:
  "posts_script sample_feed =
     [\<lparr>Content = ''p1''\<rparr>, \<lparr>Content = ''p2''\<rparr>, \<lparr>Content = ''p3''\<rparr>, \<lparr>Content = ''p4''\<rparr>,
      \<lparr>Content = ''p5''\<rparr>]"
  by (simp add: posts_script_def sample_feed_def post_of_samples)

lemma GetRecentPosts_early_rejected_script:
  "GetRecentPosts_early (Inl exception) s =
     (s, Some (''failed to extract posts: '' @ exception))"
  by (simp add: GetRecentPosts_early_def)

text \<open>
  C3. Whenever the posts step succeeds, the posts it stored are the posts of the first
  five qualifying items of the page, in page order (the items are filtered first and cut
  to five afterwards); there are at most five of them; and none is empty: the content is
  not empty in \<open>scraper.go\<close>, title and content are not both empty in the titled revision.
\<close>

theorem posts_first_five_qualifying:
  "(GetRecentPosts run s = (s', None) \<longrightarrow>
      (\<exists>items. run = Inr items \<and>
         Posts (Profile s') = map (the \<circ> post_of_item) (take 5 (filter qualifies items))) \<and>
      length (Posts (Profile s')) \<le> 5 \<and>
      (\<forall>p \<in> set (Posts (Profile s')). Content p \<noteq> [])) \<and>
   (GetRecentPosts_titled run t = (t', None) \<longrightarrow>
      (\<exists>items. run = Inr items \<and>
         Posts (Profile t') =
           map (the \<circ> titled_post_of_item) (take 5 (filter qualifies items))) \<and>
      length (Posts (Profile t')) \<le> 5 \<and>
      (\<forall>p \<in> set (Posts (Profile t')). \<not> (PostTitle p = [] \<and> PostContent p = [])))"
proof (intro conjI impI)
  assume "GetRecentPosts run s = (s', None)"
  then obtain items where r: "run = Inr items" and p: "Posts (Profile s') = posts_script items"
    by (auto simp: GetRecentPosts_def split: sum.splits)
  show "\<exists>items. run = Inr items \<and>
         Posts (Profile s') = map (the \<circ> post_of_item) (take 5 (filter qualifies items))"
    using r p posts_script_qualifying by auto
  show "length (Posts (Profile s')) \<le> 5"
    by (simp add: p posts_script_def)
  show "\<forall>p \<in> set (Posts (Profile s')). Content p \<noteq> []"
    using p posts_script_entries by auto
next
  assume "GetRecentPosts_titled run t = (t', None)"
  then obtain items where r: "run = Inr items"
    and p: "Posts (Profile t') = titled_posts_script items"
    by (auto simp: GetRecentPosts_titled_def split: sum.splits)
  show "\<exists>items. run = Inr items \<and>
         Posts (Profile t') =
           map (the \<circ> titled_post_of_item) (take 5 (filter qualifies items))"
    using r p titled_posts_script_qualifying by auto
  show "length (Posts (Profile t')) \<le> 5"
    by (simp add: p titled_posts_script_def)
  show "\<forall>p \<in> set (Posts (Profile t')). \<not> (PostTitle p = [] \<and> PostContent p = [])"
    using p titled_posts_script_entries by auto
qed

theorem posts_first_five_qualifying_witness:
  "GetRecentPosts (Inr sample_feed) new_scraper =
     (new_scraper\<lparr>Profile := empty_Profile\<lparr>Posts :=
        [\<lparr>Content = ''p1''\<rparr>, \<lparr>Content = ''p2''\<rparr>, \<lparr>Content = ''p3''\<rparr>, \<lparr>Content = ''p4''\<rparr>,
         \<lparr>Content = ''p5''\<rparr>]\<rparr>\<rparr>, None) \<and>
   length (Posts (Profile (fst (GetRecentPosts (Inr sample_feed) new_scraper)))) \<le> 5"
  using posts_first_five_qualifying[of "Inr sample_feed" new_scraper
      "fst (GetRecentPosts (Inr sample_feed) new_scraper)"]
  by (simp add: GetRecentPosts_def posts_script_sample new_scraper_def)

text \<open>
  C4. When the run of the posts step succeeds and no item of the page qualifies, the step
  returns no error and stores the empty sequence; and the step returns an error exactly
  when its run (navigation, pause, evaluation) returned one.
\<close>

theorem empty_posts_is_success:
  "(run = Inr items \<and> filter qualifies items = [] \<longrightarrow>
      GetRecentPosts run s = (s\<lparr>Profile := (Profile s)\<lparr>Posts := []\<rparr>\<rparr>, None) \<and>
      GetRecentPosts_titled run t = (t\<lparr>Profile := (Profile t)\<lparr>Posts := []\<rparr>\<rparr>, None)) \<and>
   (snd (GetRecentPosts run s) \<noteq> None) = (\<exists>err. run = Inl err) \<and>
   (snd (GetRecentPosts_titled run t) \<noteq> None) = (\<exists>err. run = Inl err)"
  by (auto simp: GetRecentPosts_def GetRecentPosts_titled_def posts_script_qualifying
        titled_posts_script_qualifying split: sum.splits)

theorem empty_posts_is_success_witness:
  "filter qualifies [reposted_item, blank_item] = [] \<and>
   GetRecentPosts (Inr [reposted_item, blank_item]) new_scraper =
     (new_scraper\<lparr>Profile := (Profile new_scraper)\<lparr>Posts := []\<rparr>\<rparr>, None)"
  using empty_posts_is_success[of "Inr [reposted_item, blank_item]"
      "[reposted_item, blank_item]" new_scraper new_scraper]
  by (simp add: qualifies_post post_of_samples)

text \<open>
  C7. An item whose header text contains \<open>reposted this\<close> yields no post, and the result
  of the script on a page with such an item, at any position, is its result on the page
  without the item.
\<close>

theorem repost_excluded:
  assumes "is_repost post"
  shows "post_of_item post = None \<and> titled_post_of_item post = None \<and>
         posts_script (before @ post # rest) = posts_script (before @ rest) \<and>
         titled_posts_script (before @ post # rest) = titled_posts_script (before @ rest)"
  using repost_not_post[OF assms] by (simp add: posts_script_def titled_posts_script_def)

theorem repost_excluded_witness:
  "is_repost reposted_item \<and>
   posts_script ([original_item ''p1''] @ reposted_item # [original_item ''p2'']) =
     [\<lparr>Content = ''p1''\<rparr>, \<lparr>Content = ''p2''\<rparr>]"
  using repost_excluded[OF is_repost_reposted_item, of "[original_item ''p1'']"
      "[original_item ''p2'']"]
  by (simp add: is_repost_reposted_item posts_script_def post_of_samples)

section \<open>Login\<close>

text \<open>
  C5. In a run of \<open>login\<close> whose address after the submission contains the challenge
  path: a return without error happens only in a run that is not headless, that went
  from \<open>ChallengePresented\<close> through \<open>AwaitingManualResolution\<close> to \<open>Authenticated\<close>, and
  whose address read after the signal no longer contains the challenge path; no run steps
  from \<open>ChallengePresented\<close> to \<open>Authenticated\<close> directly; and when the address read after
  the signal still contains the challenge path, the run ends after the wait with the
  error \<open>verification was not completed successfully\<close>.
\<close>

theorem challenge_needs_manual_resolution:
  assumes "submission b = None" and "address_after_submit b = Inr url"
    and "Contains url ''checkpoint/challenge''"
  shows "(snd (login headless b) = None \<longrightarrow>
            \<not> headless \<and>
            fst (login headless b) =
              [Idle, Authenticating, ChallengePresented, AwaitingManualResolution,
               Authenticated] \<and>
            (\<exists>url'. address_after_signal b = Inr url' \<and>
               \<not> Contains url' ''checkpoint/challenge'')) \<and>
         (Authenticated \<in> set (fst (login headless b)) \<longrightarrow>
            AwaitingManualResolution \<in> set (fst (login headless b))) \<and>
         (ChallengePresented, Authenticated) \<notin>
            set (zip (fst (login headless b)) (tl (fst (login headless b)))) \<and>
         (\<not> headless \<and> address_after_signal b = Inr url' \<and>
          Contains url' ''checkpoint/challenge'' \<longrightarrow>
            login headless b =
              ([Idle, Authenticating, ChallengePresented, AwaitingManualResolution,
                Failed ''verification was not completed successfully''],
               Some ''verification was not completed successfully''))"
  using assms by (auto simp: login_def split: option.splits sum.splits)

theorem challenge_needs_manual_resolution_witness:
  "submission challenged_then_cleared = None \<and>
   address_after_submit challenged_then_cleared =
     Inr ''https://www.linkedin.com/checkpoint/challenge/AgF'' \<and>
   Contains ''https://www.linkedin.com/checkpoint/challenge/AgF'' ''checkpoint/challenge'' \<and>
   login False challenged_then_cleared =
     ([Idle, Authenticating, ChallengePresented, AwaitingManualResolution, Authenticated],
      None) \<and>
   login False challenged_and_stuck =
     ([Idle, Authenticating, ChallengePresented, AwaitingManualResolution,
       Failed ''verification was not completed successfully''],
      Some ''verification was not completed successfully'')"
  using challenge_needs_manual_resolution[of challenged_then_cleared
      "''https://www.linkedin.com/checkpoint/challenge/AgF''" False]
    challenge_needs_manual_resolution[of challenged_and_stuck
      "''https://www.linkedin.com/checkpoint/challenge/AgF''" False
      "''https://www.linkedin.com/checkpoint/challenge/AgF''"]
  by (simp add: challenged_then_cleared_def challenged_and_stuck_def login_def
      Contains_challenge_samples del: Contains.simps)

lemma login_never_skips_the_wait:
  "(ChallengePresented, Authenticated) \<notin>
     set (zip (fst (login headless b)) (tl (fst (login headless b))))"
  by (simp add: login_def split: option.splits sum.splits)

section \<open>GetUsedParams\<close>

lemma checks_lookup:
  "map_of (checks profile) ''Posts'' = Some (Posts profile \<noteq> [])"
  "map_of (checks profile) ''Experience'' = Some (Experience profile \<noteq> [])"
  "map_of (checks profile) ''Education'' = Some (Education profile \<noteq> [])"
  "map_of (checks profile) ''Location'' = Some (Location profile \<noteq> [])"
  "map_of (checks profile) ''Name'' = Some (Name profile \<noteq> [])"
  by (simp_all add: checks_def)

lemma used_param_iff:
  assumes "param \<in> {''Posts'', ''Experience'', ''Education'', ''Location'', ''Name''}"
  shows "(map_of (checks profile) param = Some True) =
     (param = ''Posts'' \<and> Posts profile \<noteq> [] \<or>
      param = ''Experience'' \<and> Experience profile \<noteq> [] \<or>
      param = ''Education'' \<and> Education profile \<noteq> [] \<or>
      param = ''Location'' \<and> Location profile \<noteq> [] \<or>
      param = ''Name'' \<and> Name profile \<noteq> [])"
proof -
  have "param = ''Posts'' \<or> param = ''Experience'' \<or> param = ''Education''
    \<or> param = ''Location'' \<or> param = ''Name''"
    using assms by simp
  then show ?thesis
    by (elim disjE) (simp_all add: checks_lookup)
qed

lemma not_key_not_used:
  assumes "param \<notin> {''Posts'', ''Experience'', ''Education'', ''Location'', ''Name''}"
  shows "\<not> (param = ''Posts'' \<and> Posts profile \<noteq> [] \<or>
      param = ''Experience'' \<and> Experience profile \<noteq> [] \<or>
      param = ''Education'' \<and> Education profile \<noteq> [] \<or>
      param = ''Location'' \<and> Location profile \<noteq> [] \<or>
      param = ''Name'' \<and> Name profile \<noteq> [])"
  using assms by simp

lemma iteration_order_rev: "iteration_order order \<Longrightarrow> iteration_order (rev order)"
  by (simp add: iteration_order_def)

text \<open>
  C9. For every order in which \<open>range\<close> may visit the five keys, the sequence returned by
  \<open>GetUsedParams\<close> has no duplicates and holds exactly the labels among Posts,
  Experience, Education, Location and Name whose field is not empty; it holds
  \<open>Experience\<close> exactly when the experience sequence is not empty; and the order of the
  sequence is that of the visit, so the reversed visit, which is as possible, returns the
  reversed sequence.
\<close>

theorem used_params_exact:
  assumes "iteration_order order"
  shows "distinct (GetUsedParams order profile) \<and>
         set (GetUsedParams order profile) =
           {param. param = ''Posts'' \<and> Posts profile \<noteq> [] \<or>
                   param = ''Experience'' \<and> Experience profile \<noteq> [] \<or>
                   param = ''Education'' \<and> Education profile \<noteq> [] \<or>
                   param = ''Location'' \<and> Location profile \<noteq> [] \<or>
                   param = ''Name'' \<and> Name profile \<noteq> []} \<and>
         (''Experience'' \<in> set (GetUsedParams order profile)) =
           (0 < length (Experience profile)) \<and>
         iteration_order (rev order) \<and>
         GetUsedParams (rev order) profile = rev (GetUsedParams order profile)"
proof -
  let ?keys = "{''Posts'', ''Experience'', ''Education'', ''Location'', ''Name''}"
  have d: "distinct order" and s: "set order = ?keys"
    using assms by (simp_all add: iteration_order_def)
  have m: "\<And>param. (param \<in> set (GetUsedParams order profile)) =
      (param \<in> ?keys \<and> map_of (checks profile) param = Some True)"
    unfolding GetUsedParams_def set_filter s by (rule mem_Collect_eq)
  have 1: "distinct (GetUsedParams order profile)"
    using d by (simp add: GetUsedParams_def)
  have 2: "set (GetUsedParams order profile) =
           {param. param = ''Posts'' \<and> Posts profile \<noteq> [] \<or>
                   param = ''Experience'' \<and> Experience profile \<noteq> [] \<or>
                   param = ''Education'' \<and> Education profile \<noteq> [] \<or>
                   param = ''Location'' \<and> Location profile \<noteq> [] \<or>
                   param = ''Name'' \<and> Name profile \<noteq> []}" (is "?L = ?R")
  proof (rule set_eqI)
    fix param
    show "(param \<in> ?L) = (param \<in> ?R)"
    proof (cases "param \<in> ?keys")
      case True
      have "(param \<in> ?L) = (map_of (checks profile) param = Some True)"
        using True by (simp only: m simp_thms)
      also have "\<dots> = (param \<in> ?R)"
        unfolding mem_Collect_eq by (rule used_param_iff[OF True])
      finally show ?thesis .
    next
      case False
      have "param \<notin> ?L"
        using False by (simp only: m simp_thms)
      moreover have "param \<notin> ?R"
        unfolding mem_Collect_eq by (rule not_key_not_used[OF False])
      ultimately show ?thesis by (simp only: simp_thms)
    qed
  qed
  have 3: "(''Experience'' \<in> set (GetUsedParams order profile)) =
      (0 < length (Experience profile))"
    unfolding m by (simp add: checks_lookup(2))
  have 4: "iteration_order (rev order)"
    by (rule iteration_order_rev[OF assms])
  have 5: "GetUsedParams (rev order) profile = rev (GetUsedParams order profile)"
    by (simp add: GetUsedParams_def rev_filter)
  show ?thesis by (intro conjI 1 2 3 4 5)
qed

lemma used_params_samples:
  "iteration_order [''Name'', ''Posts'', ''Experience'', ''Education'', ''Location'']"
  "GetUsedParams [''Name'', ''Posts'', ''Experience'', ''Education'', ''Location'']
     sample_profile = [''Name'', ''Experience'']"
  "GetUsedParams [''Location'', ''Education'', ''Experience'', ''Posts'', ''Name'']
     sample_profile = [''Experience'', ''Name'']"
  by (simp_all add: iteration_order_def GetUsedParams_def checks_lookup sample_profile_def
      insert_commute)

theorem used_params_exact_witness:
  "iteration_order [''Name'', ''Posts'', ''Experience'', ''Education'', ''Location''] \<and>
   GetUsedParams [''Name'', ''Posts'', ''Experience'', ''Education'', ''Location'']
     sample_profile = [''Name'', ''Experience''] \<and>
   GetUsedParams (rev [''Name'', ''Posts'', ''Experience'', ''Education'', ''Location''])
     sample_profile = [''Experience'', ''Name''] \<and>
   ''Experience'' \<in> set (GetUsedParams
     [''Name'', ''Posts'', ''Experience'', ''Education'', ''Location''] sample_profile)"
  using used_params_exact[OF used_params_samples(1), of sample_profile]
  by (simp add: used_params_samples)

section \<open>The steps and the profile\<close>

lemma GetNameAndLocation_frame:
  "Posts (Profile (fst (GetNameAndLocation run s))) = Posts (Profile s) \<and>
   Experience (Profile (fst (GetNameAndLocation run s))) = Experience (Profile s) \<and>
   Education (Profile (fst (GetNameAndLocation run s))) = Education (Profile s) \<and>
   About (Profile (fst (GetNameAndLocation run s))) = About (Profile s)"
  by (simp add: GetNameAndLocation_def split: sum.splits prod.splits)

lemma GetRecentPosts_frame:
  "Name (Profile (fst (GetRecentPosts run s))) = Name (Profile s) \<and>
   Location (Profile (fst (GetRecentPosts run s))) = Location (Profile s) \<and>
   About (Profile (fst (GetRecentPosts run s))) = About (Profile s) \<and>
   Experience (Profile (fst (GetRecentPosts run s))) = Experience (Profile s) \<and>
   Education (Profile (fst (GetRecentPosts run s))) = Education (Profile s)"
  by (simp add: GetRecentPosts_def split: sum.splits)

lemma GetExperiences_frame:
  "Name (Profile (fst (GetExperiences navigation evaluation s))) = Name (Profile s) \<and>
   Location (Profile (fst (GetExperiences navigation evaluation s))) = Location (Profile s) \<and>
   About (Profile (fst (GetExperiences navigation evaluation s))) = About (Profile s) \<and>
   Education (Profile (fst (GetExperiences navigation evaluation s))) = Education (Profile s) \<and>
   Posts (Profile (fst (GetExperiences navigation evaluation s))) = Posts (Profile s)"
  by (simp add: GetExperiences_def split: sum.splits option.splits)

lemma GetEducation_frame:
  "Name (Profile (fst (GetEducation navigation evaluation s))) = Name (Profile s) \<and>
   Location (Profile (fst (GetEducation navigation evaluation s))) = Location (Profile s) \<and>
   About (Profile (fst (GetEducation navigation evaluation s))) = About (Profile s) \<and>
   Experience (Profile (fst (GetEducation navigation evaluation s))) = Experience (Profile s) \<and>
   Posts (Profile (fst (GetEducation navigation evaluation s))) = Posts (Profile s)"
  by (simp add: GetEducation_def split: sum.splits option.splits)

lemma GetExperiences_stores:
  "GetExperiences None (Inr items) s = (s', err) \<Longrightarrow>
   err = None \<and> Experience (Profile s') = experiences_script items"
  by (auto simp: GetExperiences_def)

lemma GetEducation_error_any:
  "snd (GetEducation navigation evaluation s) = snd (GetEducation navigation evaluation s')"
  by (simp add: GetEducation_def split: sum.splits option.splits)

lemma GetExperiences_error_any:
  "snd (GetExperiences navigation evaluation s) = snd (GetExperiences navigation evaluation s')"
  by (simp add: GetExperiences_def split: sum.splits option.splits)

lemma GetNameAndLocation_error_any:
  "snd (GetNameAndLocation run s) = snd (GetNameAndLocation run s')"
  by (simp add: GetNameAndLocation_def split: sum.splits prod.splits)

lemma GetRecentPosts_error_any:
  "snd (GetRecentPosts run s) = snd (GetRecentPosts run s')"
  by (simp add: GetRecentPosts_def split: sum.splits)

lemma GetRecentPosts_count:
  "Posts (Profile s) = [] \<Longrightarrow>
   length (Posts (Profile (fst (GetRecentPosts (posts_run w) s)))) = posts_found w"
  by (simp add: GetRecentPosts_def posts_found_def split: sum.splits)

lemma NewScraper_profile:
  "NewScraper first second em pw url = (states, Inr s) \<Longrightarrow> Profile s = empty_Profile"
  by (auto simp: NewScraper_def Let_def split: prod.splits option.splits if_splits)

section \<open>Runs of the handler\<close>

lemma extraction_calls_append:
  "extraction_calls (xs @ ys) = extraction_calls xs @ extraction_calls ys"
  by (simp add: extraction_calls_def)

lemma extraction_calls_Cons:
  "extraction_calls (e # evs) =
     (if is_extraction_call e then e # extraction_calls evs else extraction_calls evs)"
  by (simp add: extraction_calls_def)

lemma extraction_calls_Nil: "extraction_calls [] = []"
  by (simp add: extraction_calls_def)

lemma is_extraction_call_simps:
  "is_extraction_call CallGetNameAndLocation" "is_extraction_call CallGetRecentPosts"
  "is_extraction_call CallGetExperiences" "is_extraction_call CallGetEducation"
  "\<not> is_extraction_call (CallNewScraper states)" "\<not> is_extraction_call CallClose"
  "\<not> is_extraction_call (CallGetMessage profile)" "\<not> is_extraction_call (Log line)"
  "\<not> is_extraction_call (PrintLen n)" "\<not> is_extraction_call (PrintProfile profile)"
  "\<not> is_extraction_call (Write status msg)" "\<not> is_extraction_call NilDereference"
  by (simp_all add: is_extraction_call_def)

lemma extraction_calls_logged: "extraction_calls (logged what err) = []"
  by (simp add: extraction_calls_def logged_def is_extraction_call_def split: option.splits)

lemma experience_and_education_calls:
  "extraction_calls (fst (experience_and_education w s)) = [CallGetExperiences, CallGetEducation]"
  by (simp add: experience_and_education_def extraction_calls_def is_extraction_call_def
      logged_def split: prod.splits option.splits)

lemmas calls_simps = extraction_calls_append extraction_calls_Cons extraction_calls_Nil
  is_extraction_call_simps extraction_calls_logged experience_and_education_calls

lemma logged_no_posts_call: "CallGetRecentPosts \<notin> set (logged what err)"
  by (simp add: logged_def split: option.splits)

lemma after_posts_at:
  "CallGetRecentPosts \<notin> set pre \<Longrightarrow> after_posts (pre @ CallGetRecentPosts # rest) = rest"
  by (induction pre) (auto simp: after_posts_def)

lemma writes_append: "writes (xs @ ys) = writes xs @ writes ys"
  by (induction xs rule: writes.induct) simp_all

lemma writes_logged: "writes (logged what err) = []"
  by (simp add: logged_def split: option.splits)

lemma experience_and_education_writes:
  "writes (fst (experience_and_education w s)) =
     (case snd (GetEducation (education_navigation w) (education_evaluation w) s') of
        None \<Rightarrow> [] | Some err \<Rightarrow> [(500, server_error)])"
  using GetEducation_error_any[of "education_navigation w" "education_evaluation w"
      "fst (GetExperiences (experience_navigation w) (experience_evaluation w) s)" s']
  by (simp add: experience_and_education_def case_prod_unfold writes_append writes_logged
      split: option.splits)

lemma experience_and_education_logs:
  "set (logged ''error while getting experiences: ''
          (snd (GetExperiences (experience_navigation w) (experience_evaluation w) s')) @
        logged ''error while getting education: ''
          (snd (GetEducation (education_navigation w) (education_evaluation w) s'')))
   \<subseteq> set (fst (experience_and_education w s))"
  using GetEducation_error_any[of "education_navigation w" "education_evaluation w"
      "fst (GetExperiences (experience_navigation w) (experience_evaluation w) s)" s'']
    GetExperiences_error_any[of "experience_navigation w" "experience_evaluation w" s s']
  by (auto simp: experience_and_education_def case_prod_unfold)

text \<open>The run of either handler once the request is accepted and the session is open.\<close>

lemma Home_run:
  assumes "decoded w = Inr d" and "ValidEmail w (Email d)"
    and "NewScraper (first_login w) (second_login w) (Email d) (Password d) (LinkedinUrl d) =
           (states, Inr s)"
  defines "r1 \<equiv> GetNameAndLocation (name_location_run w) s"
  defines "r2 \<equiv> GetRecentPosts (posts_run w) (fst r1)"
  defines "r3 \<equiv> (if posts_found w \<le> 2 then experience_and_education w (fst r2)
                   else ([], fst r2))"
  shows "Home w =
     (([CallNewScraper states, CallGetNameAndLocation] @
       logged ''error while getting name && location: '' (snd r1)) @
      CallGetRecentPosts #
      (logged ''error while getting posts: '' (snd r2) @
       [PrintLen (posts_found w)] @ fst r3 @
       [CallClose, PrintProfile (Profile (snd r3)), CallGetMessage (Profile (snd r3))] @
       (case message_reply w of
          Inl err \<Rightarrow> [Write 500 server_error]
        | Inr msg \<Rightarrow>
            [Write 200 (Result \<lparr>Msg = msg,
               ParamsUsed = GetUsedParams (checks_order w) (Profile (snd r3)),
               RecentPosts = Posts (Profile (snd r3))\<rparr>)])),
      Returned)"
proof -
  have "Posts (Profile (fst r1)) = []"
    using NewScraper_profile[OF assms(3)] GetNameAndLocation_frame[of "name_location_run w" s]
    by (simp add: empty_Profile_def r1_def)
  then have "length (Posts (Profile (fst r2))) = posts_found w"
    unfolding r2_def by (rule GetRecentPosts_count)
  then show ?thesis
    using assms(1-3)
    by (simp add: Home_def case_prod_unfold r1_def r2_def r3_def split: sum.splits)
qed

lemma Home_early_run:
  assumes "decoded w = Inr d" and "ValidEmail w (Email d)"
    and "NewScraper (first_login w) (second_login w) (Email d) (Password d) (LinkedinUrl d) =
           (states, Inr s)"
  defines "r1 \<equiv> GetRecentPosts (posts_run w) s"
  defines "r2 \<equiv> GetNameAndLocation (name_location_run w) (fst r1)"
  defines "r3 \<equiv> experience_and_education w (fst r2)"
  shows "Home_early w =
     ([CallNewScraper states] @
      CallGetRecentPosts #
      (logged ''error while getting posts: '' (snd r1) @
       [PrintLen (posts_found w)] @
       (if posts_found w \<le> 2
        then [CallGetNameAndLocation] @
             logged ''error while getting name && location: '' (snd r2) @ fst r3
        else []) @
       [CallClose, PrintProfile (Profile (if posts_found w \<le> 2 then snd r3 else fst r1)),
        Write 200 Hello]),
      Returned)"
proof -
  have "Posts (Profile s) = []"
    using NewScraper_profile[OF assms(3)] by (simp add: empty_Profile_def)
  then have "length (Posts (Profile (fst r1))) = posts_found w"
    unfolding r1_def by (rule GetRecentPosts_count)
  then show ?thesis
    using assms(1-3) by (simp add: Home_early_def case_prod_unfold r1_def r2_def r3_def)
qed

lemma sample_session:
  "NewScraper direct_login direct_login ''ada@example.org'' ''pw''
     ''https://www.linkedin.com/in/grace'' =
   ([Idle, Authenticating, Authenticated], Inr (new_scraper :: Post Scraper))"
  by code_simp

lemma sample_valid: "ValidEmail sample_world ''ada@example.org''"
  by code_simp

lemma posts_found_samples:
  "posts_found sample_world = 2" "posts_found busy_world = 5"
  "posts_found education_down_world = 2"
  by code_simp+

lemma sample_worlds_accepted:
  "decoded sample_world = Inr sample_request"
  "decoded busy_world = Inr sample_request"
  "decoded education_down_world = Inr sample_request"
  "ValidEmail sample_world (Email sample_request)"
  "ValidEmail busy_world (Email sample_request)"
  "ValidEmail education_down_world (Email sample_request)"
  using sample_valid
  by (simp_all add: sample_world_def busy_world_def education_down_world_def
      sample_request_def ValidEmail_def)

lemma sample_worlds_session:
  "NewScraper (first_login sample_world) (second_login sample_world)
     (Email sample_request) (Password sample_request) (LinkedinUrl sample_request) =
   ([Idle, Authenticating, Authenticated], Inr (new_scraper :: Post Scraper))"
  "NewScraper (first_login busy_world) (second_login busy_world)
     (Email sample_request) (Password sample_request) (LinkedinUrl sample_request) =
   ([Idle, Authenticating, Authenticated], Inr (new_scraper :: Post Scraper))"
  "NewScraper (first_login education_down_world) (second_login education_down_world)
     (Email sample_request) (Password sample_request) (LinkedinUrl sample_request) =
   ([Idle, Authenticating, Authenticated], Inr (new_scraper :: Post Scraper))"
  using sample_session
  by (simp_all add: sample_world_def busy_world_def education_down_world_def
      sample_request_def)

text \<open>
  C1. In a run whose request is accepted and whose session opens, the gate is the test
  that the number of posts found is at most 2. In the handler that answers with the
  message, name and location are read before the posts step in every run, whatever the
  number of posts, and the calls after the posts step are experiences and education
  when at most 2 posts were found and none when 3 or more were. In the earlier handler
  the calls after the posts step are name and location, experiences and education when
  at most 2 posts were found and none when 3 or more were.
\<close>

theorem full_extraction_gate:
  assumes "decoded w = Inr d" and "ValidEmail w (Email d)"
    and "NewScraper (first_login w) (second_login w) (Email d) (Password d) (LinkedinUrl d) =
           (states, Inr (s :: Post Scraper))"
  shows "extraction_calls (fst (Home w)) =
           [CallGetNameAndLocation, CallGetRecentPosts] @
           (if posts_found w \<le> 2 then [CallGetExperiences, CallGetEducation] else []) \<and>
         extraction_calls (fst (Home_early w)) =
           [CallGetRecentPosts] @
           (if posts_found w \<le> 2
            then [CallGetNameAndLocation, CallGetExperiences, CallGetEducation] else []) \<and>
         extraction_calls (after_posts (fst (Home w))) =
           (if posts_found w \<le> 2 then [CallGetExperiences, CallGetEducation] else []) \<and>
         extraction_calls (after_posts (fst (Home_early w))) =
           (if posts_found w \<le> 2
            then [CallGetNameAndLocation, CallGetExperiences, CallGetEducation] else []) \<and>
         CallGetNameAndLocation \<in> set (fst (Home w)) \<and>
         (CallGetExperiences \<in> set (fst (Home w))) = (posts_found w \<le> 2) \<and>
         (CallGetEducation \<in> set (fst (Home w))) = (posts_found w \<le> 2) \<and>
         (CallGetNameAndLocation \<in> set (fst (Home_early w))) = (posts_found w \<le> 2) \<and>
         (CallGetExperiences \<in> set (fst (Home_early w))) = (posts_found w \<le> 2) \<and>
         (CallGetEducation \<in> set (fst (Home_early w))) = (posts_found w \<le> 2)"
proof (intro conjI)
  note run = Home_run[OF assms] and early = Home_early_run[OF assms]
  show "extraction_calls (after_posts (fst (Home w))) =
           (if posts_found w \<le> 2 then [CallGetExperiences, CallGetEducation] else [])"
    unfolding run fst_conv
    by (subst after_posts_at) (simp_all add: logged_no_posts_call calls_simps split: sum.splits)
  show "extraction_calls (after_posts (fst (Home_early w))) =
           (if posts_found w \<le> 2
            then [CallGetNameAndLocation, CallGetExperiences, CallGetEducation] else [])"
    unfolding early fst_conv
    by (subst after_posts_at) (simp_all add: calls_simps)
  have m: "\<And>e evs. is_extraction_call e \<Longrightarrow>
      (e \<in> set evs) = (e \<in> set (extraction_calls evs))"
    by (auto simp: extraction_calls_def)
  show c: "extraction_calls (fst (Home w)) =
      [CallGetNameAndLocation, CallGetRecentPosts] @
      (if posts_found w \<le> 2 then [CallGetExperiences, CallGetEducation] else [])"
    unfolding run fst_conv by (simp add: calls_simps split: sum.splits)
  show c': "extraction_calls (fst (Home_early w)) =
      [CallGetRecentPosts] @
      (if posts_found w \<le> 2
       then [CallGetNameAndLocation, CallGetExperiences, CallGetEducation] else [])"
    unfolding early fst_conv by (simp add: calls_simps)
  show "CallGetNameAndLocation \<in> set (fst (Home w))"
    using m[OF is_extraction_call_simps(1), of "fst (Home w)"] unfolding c by simp
  show "(CallGetExperiences \<in> set (fst (Home w))) = (posts_found w \<le> 2)"
    using m[OF is_extraction_call_simps(3), of "fst (Home w)"] unfolding c by simp
  show "(CallGetEducation \<in> set (fst (Home w))) = (posts_found w \<le> 2)"
    using m[OF is_extraction_call_simps(4), of "fst (Home w)"] unfolding c by simp
  show "(CallGetNameAndLocation \<in> set (fst (Home_early w))) = (posts_found w \<le> 2)"
    using m[OF is_extraction_call_simps(1), of "fst (Home_early w)"] unfolding c' by simp
  show "(CallGetExperiences \<in> set (fst (Home_early w))) = (posts_found w \<le> 2)"
    using m[OF is_extraction_call_simps(3), of "fst (Home_early w)"] unfolding c' by simp
  show "(CallGetEducation \<in> set (fst (Home_early w))) = (posts_found w \<le> 2)"
    using m[OF is_extraction_call_simps(4), of "fst (Home_early w)"] unfolding c' by simp
qed

theorem full_extraction_gate_witness:
  "decoded sample_world = Inr sample_request \<and>
   ValidEmail sample_world (Email sample_request) \<and>
   posts_found sample_world = 2 \<and>
   extraction_calls (fst (Home sample_world)) =
     [CallGetNameAndLocation, CallGetRecentPosts, CallGetExperiences, CallGetEducation] \<and>
   extraction_calls (after_posts (fst (Home sample_world))) =
     [CallGetExperiences, CallGetEducation] \<and>
   extraction_calls (after_posts (fst (Home_early sample_world))) =
     [CallGetNameAndLocation, CallGetExperiences, CallGetEducation] \<and>
   posts_found busy_world = 5 \<and>
   extraction_calls (fst (Home busy_world)) = [CallGetNameAndLocation, CallGetRecentPosts] \<and>
   extraction_calls (fst (Home_early busy_world)) = [CallGetRecentPosts] \<and>
   extraction_calls (after_posts (fst (Home busy_world))) = [] \<and>
   extraction_calls (after_posts (fst (Home_early busy_world))) = []"
  using full_extraction_gate[OF sample_worlds_accepted(1) sample_worlds_accepted(4)
      sample_worlds_session(1)]
    full_extraction_gate[OF sample_worlds_accepted(2) sample_worlds_accepted(5)
      sample_worlds_session(2)]
  by (simp add: sample_worlds_accepted posts_found_samples)

text \<open>
  The gate does not decide the name-and-location step of the handler that answers with
  the message: on the request that finds five posts the step is called all the same, so
  "the step runs exactly when at most 2 posts were found" is false there.
\<close>

theorem identity_runs_with_five_posts:
  "posts_found busy_world = 5 \<and>
   CallGetNameAndLocation \<in> set (fst (Home busy_world)) \<and>
   \<not> ((CallGetNameAndLocation \<in> set (fst (Home busy_world))) = (posts_found busy_world \<le> 2)) \<and>
   extraction_calls (fst (Home busy_world)) = [CallGetNameAndLocation, CallGetRecentPosts]"
  by code_simp

lemma status_sent_Cons:
  "status_sent (Write status msg # evs) = Some status"
  by (simp add: status_sent_def)

text \<open>
  C6. In a run whose request is accepted, whose session opens and whose gate is open,
  every extraction step is called whatever the steps before it returned; the error of a
  failing name-and-location, experience or education step is logged; a failing education
  step makes the first response written, and so the status sent, a 500 with the server
  error message; and when the education step succeeds no response is written for any
  other failing step: the only response is the final one.
\<close>

theorem step_failures_logged_education_answers_500:
  assumes "decoded w = Inr d" and "ValidEmail w (Email d)"
    and "NewScraper (first_login w) (second_login w) (Email d) (Password d) (LinkedinUrl d) =
           (states, Inr (s :: Post Scraper))"
    and "posts_found w \<le> 2"
  shows "extraction_calls (fst (Home w)) =
           [CallGetNameAndLocation, CallGetRecentPosts, CallGetExperiences, CallGetEducation] \<and>
         extraction_calls (fst (Home_early w)) =
           [CallGetRecentPosts, CallGetNameAndLocation, CallGetExperiences, CallGetEducation] \<and>
         (\<forall>err. snd (GetNameAndLocation (name_location_run w) s) = Some err \<longrightarrow>
            Log (''error while getting name && location: '' @ err) \<in>
              set (fst (Home w)) \<inter> set (fst (Home_early w))) \<and>
         (\<forall>err. snd (GetExperiences (experience_navigation w) (experience_evaluation w) s) =
                  Some err \<longrightarrow>
            Log (''error while getting experiences: '' @ err) \<in>
              set (fst (Home w)) \<inter> set (fst (Home_early w))) \<and>
         (\<forall>err. snd (GetEducation (education_navigation w) (education_evaluation w) s) =
                  Some err \<longrightarrow>
            Log (''error while getting education: '' @ err) \<in>
              set (fst (Home w)) \<inter> set (fst (Home_early w))) \<and>
         (snd (GetEducation (education_navigation w) (education_evaluation w) s) \<noteq> None \<longrightarrow>
            status_sent (fst (Home w)) = Some 500 \<and>
            status_sent (fst (Home_early w)) = Some 500 \<and>
            (\<exists>rest. writes (fst (Home w)) = (500, server_error) # rest) \<and>
            writes (fst (Home_early w)) = [(500, server_error), (200, Hello)]) \<and>
         (snd (GetEducation (education_navigation w) (education_evaluation w) s) = None \<longrightarrow>
            writes (fst (Home_early w)) = [(200, Hello)] \<and>
            length (writes (fst (Home w))) = 1 \<and>
            status_sent (fst (Home w)) =
              Some (case message_reply w of Inl err \<Rightarrow> 500 | Inr msg \<Rightarrow> 200))"
proof (intro conjI impI allI)
  note run = Home_run[OF assms(1-3)] and early = Home_early_run[OF assms(1-3)]
  let ?edu = "snd (GetEducation (education_navigation w) (education_evaluation w) s)"
  show "extraction_calls (fst (Home w)) =
           [CallGetNameAndLocation, CallGetRecentPosts, CallGetExperiences, CallGetEducation]"
    unfolding run fst_conv using assms(4) by (simp add: calls_simps split: sum.splits)
  show "extraction_calls (fst (Home_early w)) =
           [CallGetRecentPosts, CallGetNameAndLocation, CallGetExperiences, CallGetEducation]"
    unfolding early fst_conv using assms(4) by (simp add: calls_simps)
  have l1: "\<And>s'. set (logged ''error while getting experiences: ''
                (snd (GetExperiences (experience_navigation w) (experience_evaluation w) s)) @
              logged ''error while getting education: ''
                (snd (GetEducation (education_navigation w) (education_evaluation w) s)))
           \<subseteq> set (fst (experience_and_education w s'))"
    by (rule experience_and_education_logs)
  {
    fix err
    assume a: "snd (GetNameAndLocation (name_location_run w) s) = Some err"
    have b: "snd (GetNameAndLocation (name_location_run w)
        (fst (GetRecentPosts (posts_run w) s))) = Some err"
      using a GetNameAndLocation_error_any[of "name_location_run w"
          "fst (GetRecentPosts (posts_run w) s)" s] by simp
    have "Log (''error while getting name && location: '' @ err) \<in> set (fst (Home w))"
      unfolding run fst_conv by (simp add: a logged_def)
    moreover have "Log (''error while getting name && location: '' @ err) \<in>
        set (fst (Home_early w))"
      unfolding early fst_conv using assms(4) by (simp add: b logged_def)
    ultimately show "Log (''error while getting name && location: '' @ err) \<in>
        set (fst (Home w)) \<inter> set (fst (Home_early w))"
      by simp
  }
  {
    fix err
    assume a: "snd (GetExperiences (experience_navigation w) (experience_evaluation w) s) =
      Some err"
    have m: "\<And>s'. Log (''error while getting experiences: '' @ err) \<in>
        set (fst (experience_and_education w s'))"
      using l1 by (simp add: a logged_def)
    have "Log (''error while getting experiences: '' @ err) \<in> set (fst (Home w))"
      unfolding run fst_conv using assms(4) m by simp
    moreover have "Log (''error while getting experiences: '' @ err) \<in>
        set (fst (Home_early w))"
      unfolding early fst_conv using assms(4) m by simp
    ultimately show "Log (''error while getting experiences: '' @ err) \<in>
        set (fst (Home w)) \<inter> set (fst (Home_early w))"
      by simp
  }
  {
    fix err
    assume a: "snd (GetEducation (education_navigation w) (education_evaluation w) s) =
      Some err"
    have m: "\<And>s'. Log (''error while getting education: '' @ err) \<in>
        set (fst (experience_and_education w s'))"
      using l1 by (simp add: a logged_def)
    have "Log (''error while getting education: '' @ err) \<in> set (fst (Home w))"
      unfolding run fst_conv using assms(4) m by simp
    moreover have "Log (''error while getting education: '' @ err) \<in>
        set (fst (Home_early w))"
      unfolding early fst_conv using assms(4) m by simp
    ultimately show "Log (''error while getting education: '' @ err) \<in>
        set (fst (Home w)) \<inter> set (fst (Home_early w))"
      by simp
  }
  have w1: "writes (fst (Home w)) =
      (case ?edu of None \<Rightarrow> [] | Some err \<Rightarrow> [(500, server_error)]) @
      (case message_reply w of
          Inl err \<Rightarrow> [(500, server_error)]
        | Inr msg \<Rightarrow>
            [(200, Result \<lparr>Msg = msg,
               ParamsUsed = GetUsedParams (checks_order w)
                 (Profile (snd (experience_and_education w
                    (fst (GetRecentPosts (posts_run w)
                       (fst (GetNameAndLocation (name_location_run w) s))))))),
               RecentPosts = Posts (Profile (snd (experience_and_education w
                    (fst (GetRecentPosts (posts_run w)
                       (fst (GetNameAndLocation (name_location_run w) s)))))))\<rparr>)])"
    unfolding run fst_conv using assms(4)
    by (simp add: writes_append writes_logged experience_and_education_writes[of w _ s]
        split: sum.splits)
  have w2: "writes (fst (Home_early w)) =
      (case ?edu of None \<Rightarrow> [] | Some err \<Rightarrow> [(500, server_error)]) @ [(200, Hello)]"
    unfolding early fst_conv using assms(4)
    by (simp add: writes_append writes_logged experience_and_education_writes[of w _ s])
  {
    assume "?edu \<noteq> None"
    then obtain err where e: "?edu = Some err" by auto
    show "status_sent (fst (Home w)) = Some 500" "status_sent (fst (Home_early w)) = Some 500"
      "\<exists>rest. writes (fst (Home w)) = (500, server_error) # rest"
      "writes (fst (Home_early w)) = [(500, server_error), (200, Hello)]"
      by (simp_all add: status_sent_def w1 w2 e)
  }
  {
    assume e: "?edu = None"
    show "writes (fst (Home_early w)) = [(200, Hello)]"
      by (simp add: w2 e)
    show "length (writes (fst (Home w))) = 1"
      by (simp add: w1 e split: sum.splits)
    show "status_sent (fst (Home w)) =
        Some (case message_reply w of Inl err \<Rightarrow> 500 | Inr msg \<Rightarrow> 200)"
      by (simp add: status_sent_def w1 e split: sum.splits)
  }
qed

lemma sample_step_errors:
  "snd (GetEducation (education_navigation education_down_world)
     (education_evaluation education_down_world) (new_scraper :: Post Scraper)) =
   Some ''navigation failed: timeout''"
  "snd (GetExperiences (experience_navigation sample_world)
     (experience_evaluation sample_world) (new_scraper :: Post Scraper)) =
   Some ''navigation failed: context deadline exceeded''"
  "snd (GetEducation (education_navigation sample_world)
     (education_evaluation sample_world) (new_scraper :: Post Scraper)) = None"
  "message_reply sample_world = Inr ''Hi Grace''"
  by (simp_all add: sample_world_def education_down_world_def GetEducation_def
      GetExperiences_def)

theorem step_failures_logged_education_answers_500_witness:
  "decoded education_down_world = Inr sample_request \<and>
   ValidEmail education_down_world (Email sample_request) \<and>
   posts_found education_down_world \<le> 2 \<and>
   snd (GetEducation (education_navigation education_down_world)
     (education_evaluation education_down_world) (new_scraper :: Post Scraper)) =
     Some ''navigation failed: timeout'' \<and>
   status_sent (fst (Home education_down_world)) = Some 500 \<and>
   Log ''error while getting education: navigation failed: timeout'' \<in>
     set (fst (Home education_down_world)) \<and>
   snd (GetExperiences (experience_navigation sample_world)
     (experience_evaluation sample_world) (new_scraper :: Post Scraper)) =
     Some ''navigation failed: context deadline exceeded'' \<and>
   Log ''error while getting experiences: navigation failed: context deadline exceeded'' \<in>
     set (fst (Home sample_world)) \<and>
   extraction_calls (fst (Home sample_world)) =
     [CallGetNameAndLocation, CallGetRecentPosts, CallGetExperiences, CallGetEducation] \<and>
   status_sent (fst (Home sample_world)) = Some 200"
  using step_failures_logged_education_answers_500[OF sample_worlds_accepted(3)
      sample_worlds_accepted(6) sample_worlds_session(3)]
    step_failures_logged_education_answers_500[OF sample_worlds_accepted(1)
      sample_worlds_accepted(4) sample_worlds_session(1)]
  by (simp add: sample_worlds_accepted posts_found_samples sample_step_errors)

section \<open>Requests that are turned away\<close>

text \<open>
  C10. When the body does not decode the handler writes one response, 500 with the
  generic message, and returns; when the decoded address is not accepted by
  \<open>ValidEmail\<close> it writes one response, 400 \<open>invalid email\<close>, and returns; and a run in
  which \<open>NewScraper\<close> is called is a run whose body decoded and whose address was
  accepted.
\<close>

theorem rejected_request_opens_no_session:
  "(decoded w = Inl err \<longrightarrow>
      Home w = ([Write 500 (Message ''Encountered an error. Please try again'')], Returned) \<and>
      Home_early w =
        ([Write 500 (Message ''Encountered an error. Please try again'')], Returned)) \<and>
   (decoded w = Inr d \<and> \<not> ValidEmail w (Email d) \<longrightarrow>
      Home w = ([Write 400 (Message ''invalid email'')], Returned) \<and>
      Home_early w = ([Write 400 (Message ''invalid email'')], Returned)) \<and>
   ((\<exists>states. CallNewScraper states \<in> set (fst (Home w)) \<union> set (fst (Home_early w))) \<longrightarrow>
      (\<exists>d. decoded w = Inr d \<and> ValidEmail w (Email d)))"
proof (intro conjI impI)
  assume "decoded w = Inl err"
  then show "Home w =
      ([Write 500 (Message ''Encountered an error. Please try again'')], Returned)"
    and "Home_early w =
      ([Write 500 (Message ''Encountered an error. Please try again'')], Returned)"
    by (simp_all add: Home_def Home_early_def)
next
  assume "decoded w = Inr d \<and> \<not> ValidEmail w (Email d)"
  then show "Home w = ([Write 400 (Message ''invalid email'')], Returned)"
    and "Home_early w = ([Write 400 (Message ''invalid email'')], Returned)"
    by (simp_all add: Home_def Home_early_def)
next
  assume a: "\<exists>states. CallNewScraper states \<in> set (fst (Home w)) \<union> set (fst (Home_early w))"
  show "\<exists>d. decoded w = Inr d \<and> ValidEmail w (Email d)"
  proof (cases "decoded w")
    case (Inl e)
    then show ?thesis using a by (simp add: Home_def Home_early_def)
  next
    case (Inr d)
    then show ?thesis using a by (cases "ValidEmail w (Email d)") (simp_all add: Home_def Home_early_def)
  qed
qed

lemma rejected_samples:
  "decoded undecodable_world = Inl ''unexpected end of JSON input''"
  "decoded bad_address_world = Inr (sample_request\<lparr>Email := ''ada''\<rparr>)"
  "\<not> ValidEmail bad_address_world (Email (sample_request\<lparr>Email := ''ada''\<rparr>))"
  by (simp_all add: undecodable_world_def bad_address_world_def sample_world_def
      ValidEmail_def)

theorem rejected_request_opens_no_session_witness:
  "decoded undecodable_world = Inl ''unexpected end of JSON input'' \<and>
   Home undecodable_world =
     ([Write 500 (Message ''Encountered an error. Please try again'')], Returned) \<and>
   decoded bad_address_world = Inr (sample_request\<lparr>Email := ''ada''\<rparr>) \<and>
   \<not> ValidEmail bad_address_world (Email (sample_request\<lparr>Email := ''ada''\<rparr>)) \<and>
   Home bad_address_world = ([Write 400 (Message ''invalid email'')], Returned)"
proof -
  have a: "Home undecodable_world =
     ([Write 500 (Message ''Encountered an error. Please try again'')], Returned)"
    using rejected_request_opens_no_session[of undecodable_world
      "''unexpected end of JSON input''" sample_request] rejected_samples(1)
    by (simp only: simp_thms)
  have b: "Home bad_address_world = ([Write 400 (Message ''invalid email'')], Returned)"
    using rejected_request_opens_no_session[of bad_address_world
      "''unexpected end of JSON input''" "sample_request\<lparr>Email := ''ada''\<rparr>"]
      rejected_samples(2,3)
    by (simp only: simp_thms)
  show ?thesis
    by (intro conjI a b rejected_samples)
qed

section \<open>A login that fails\<close>

lemma Home_after_failed_NewScraper:
  assumes "decoded w = Inr d" and "ValidEmail w (Email d)"
    and "NewScraper (first_login w) (second_login w) (Email d) (Password d) (LinkedinUrl d) =
           (states, (Inl err :: string + Post Scraper))"
  shows "Home w =
           ([CallNewScraper states, Log (''error while getting posts: '' @ err),
             CallGetNameAndLocation, NilDereference], Panicked)"
    and "Home_early w =
           ([CallNewScraper states, Log (''error while getting posts: '' @ err),
             CallGetRecentPosts, NilDereference], Panicked)"
    and "writes (fst (Home w)) = []" and "writes (fst (Home_early w)) = []"
  using assms by (simp_all add: Home_def Home_early_def)

text \<open>
  C2. The run of the handler on a request whose two logins both end on the challenge
  page: \<open>NewScraper\<close> returns the error, the handler logs it, enters the next extraction
  step with the nil scraper and panics on the dereference; no response is written.
\<close>

theorem failed_login_runs_into_nil_scraper:
  "(NewScraper (first_login locked_out_world) (second_login locked_out_world)
      ''ada@example.org'' ''pw'' ''https://www.linkedin.com/in/grace''
      :: auth_state list \<times> (string + Post Scraper)) =
     ([Idle, Authenticating, ChallengePresented, AwaitingManualResolution,
       Failed ''verification was not completed successfully'',
       Idle, Authenticating, ChallengePresented, AwaitingManualResolution,
       Failed ''verification was not completed successfully''],
      Inl ''failed to login even with verification: verification was not completed successfully'') \<and>
   Home locked_out_world =
     ([CallNewScraper
         [Idle, Authenticating, ChallengePresented, AwaitingManualResolution,
          Failed ''verification was not completed successfully'',
          Idle, Authenticating, ChallengePresented, AwaitingManualResolution,
          Failed ''verification was not completed successfully''],
       Log ''error while getting posts: failed to login even with verification: verification was not completed successfully'',
       CallGetNameAndLocation, NilDereference], Panicked) \<and>
   snd (Home_early locked_out_world) = Panicked \<and>
   writes (fst (Home locked_out_world)) = [] \<and>
   status_sent (fst (Home locked_out_world)) = None \<and>
   status_sent (fst (Home_early locked_out_world)) = None"
  by code_simp

section \<open>The experience step of the earlier revision\<close>

lemma GetExperiences_early_keeps_scraper:
  "fst (GetExperiences_early navigation evaluation s) = s"
  by (simp add: GetExperiences_early_def Let_def split: option.splits sum.splits)

text \<open>
  C8. On a page with one experience entry the script of \<open>GetExperiences\<close> yields that
  entry; the earlier revision of the step returns without error and leaves
  \<open>Profile.Experience\<close> empty, where the step of \<open>scraper.go\<close> stores the entry.
\<close>

theorem early_GetExperiences_stores_nothing:
  "experiences_script [Some sample_entity] =
     [\<lparr>Company = ''Acme'', Duration = ''2019 - Present'', Title = ''Engineer''\<rparr>] \<and>
   GetExperiences_early None (Inr [Some sample_entity]) (new_scraper :: Post Scraper) =
     (new_scraper, None) \<and>
   Experience (Profile (fst (GetExperiences_early None (Inr [Some sample_entity])
     (new_scraper :: Post Scraper)))) = [] \<and>
   Experience (Profile (fst (GetExperiences None (Inr [Some sample_entity])
     (new_scraper :: Post Scraper)))) =
     [\<lparr>Company = ''Acme'', Duration = ''2019 - Present'', Title = ''Engineer''\<rparr>]"
  by code_simp

end
